theory Spec2Isabelle
  imports Main "HOL-Library.Sublist"
begin

section \<open>Data model (types.ts)\<close>

text \<open>
  JavaScript strings are modelled as \<^typ>\<open>string\<close>, one \<^typ>\<open>char\<close> per code unit
  (the Latin-1 range, which covers every character the program itself tests for).
  \<^verbatim>\<open>process.platform\<close> is a string at run time; the type \<^verbatim>\<open>Platform\<close> of types.ts is
  only a cast, so the platform stays a string here and every value outside
  \<^verbatim>\<open>darwin\<close>, \<^verbatim>\<open>win32\<close>, \<^verbatim>\<open>linux\<close> is an unknown platform.
\<close>

type_synonym Platform = string

record LauncherSettings =
  terminalCommand :: string
  claudeCommand :: string
  additionalArgs :: string

text \<open>
  The third field of \<^verbatim>\<open>LaunchContext\<close> is called \<^verbatim>\<open>terminalCommand\<close> in the source, like the
  field of \<^verbatim>\<open>LauncherSettings\<close>; record fields are global names here, so it is
  \<open>ctxTerminalCommand\<close>.
\<close>

record LaunchContext =
  workingDirectory :: string
  command :: string
  ctxTerminalCommand :: string

text \<open>\<^verbatim>\<open>LaunchResult\<close>: the optional \<^verbatim>\<open>error\<close> field is an option.\<close>

record LaunchResult =
  success :: bool
  error :: "string option"

text \<open>The table \<^verbatim>\<open>ERROR_MESSAGES\<close>.\<close>

definition COMMAND_NOT_FOUND :: string where
  "COMMAND_NOT_FOUND = ''Claude Code not found. Ensure it is installed and in your PATH.''"

definition PERMISSION_DENIED :: string where
  "PERMISSION_DENIED = ''Permission denied. Check your terminal settings and system permissions.''"

definition INVALID_PATH :: string where
  "INVALID_PATH = ''Invalid directory path. Cannot launch Claude Code.''"

definition PLATFORM_UNSUPPORTED :: string where
  "PLATFORM_UNSUPPORTED = ''Your platform is not currently supported.''"

definition SPAWN_FAILED :: string where
  "SPAWN_FAILED = ''Failed to launch terminal: ''"

definition NOT_DESKTOP :: string where
  "NOT_DESKTOP = ''This feature is only available on desktop.''"

section \<open>String primitives of the JavaScript runtime\<close>

text \<open>\<^verbatim>\<open>s.includes(sub)\<close>: \<^verbatim>\<open>sub\<close> occurs in \<^verbatim>\<open>s\<close> as a contiguous substring.\<close>

fun str_includes :: "string \<Rightarrow> string \<Rightarrow> bool" where
  "str_includes [] sub = (sub = [])"
| "str_includes (c # cs) sub = (prefix sub (c # cs) \<or> str_includes cs sub)"

section \<open>Default settings (settings.ts)\<close>

definition darwin_default :: string where
  \<open>darwin_default =
     ''osascript -e 'tell application "Terminal" to do script "cd {DIR} && {CMD}"'' @ [CHR 0x27]\<close>

definition win32_default :: string where
  \<open>win32_default = ''start cmd /K "cd /D {DIR} && {CMD}"''\<close>

definition linux_default :: string where
  \<open>linux_default =
     ''gnome-terminal --working-directory="{DIR}" -- bash -c "{CMD}; exec bash"''\<close>

text \<open>
  \<^verbatim>\<open>getDefaultSettings\<close> reads \<^verbatim>\<open>process.platform\<close>; the model takes it as an argument.
  The \<^verbatim>\<open>switch\<close> has the three named cases and a \<^verbatim>\<open>default\<close> whose string literal is
  written out a second time in the source.
\<close>

definition getDefaultSettings :: "Platform \<Rightarrow> LauncherSettings" where
  \<open>getDefaultSettings platform =
     \<lparr> terminalCommand =
         (if platform = ''darwin'' then darwin_default
          else if platform = ''win32'' then win32_default
          else if platform = ''linux'' then linux_default
          else ''gnome-terminal --working-directory="{DIR}" -- bash -c "{CMD}; exec bash"''),
       claudeCommand = ''claude-code'',
       additionalArgs = '''' \<rparr>\<close>

section \<open>Placeholder substitution (terminal.ts, launchTerminal)\<close>

text \<open>
  \<^verbatim>\<open>String.prototype.replace\<close> with a string as replacement expands the replacement
  patterns of the language (\<^verbatim>\<open>GetSubstitution\<close>) at every match: \<^verbatim>\<open>$$\<close> is a dollar
  sign, \<^verbatim>\<open>$&\<close> the matched text, \<^verbatim>\<open>$`\<close> the text before the match and \<^verbatim>\<open>$'\<close> the text
  after it. The two regular expressions of the source have no capture group, so
  \<^verbatim>\<open>$1\<close> ... \<^verbatim>\<open>$99\<close> and \<^verbatim>\<open>$<\<close> stand for themselves, as every other character does.
\<close>

fun getSubstitution :: "string \<Rightarrow> string \<Rightarrow> string \<Rightarrow> string \<Rightarrow> string" where
  "getSubstitution matched preceding following [] = []"
| "getSubstitution matched preceding following [c] = [c]"
| "getSubstitution matched preceding following (c # d # t) =
     (if c = CHR ''$'' \<and> d = CHR ''$'' then CHR ''$'' # getSubstitution matched preceding following t
      else if c = CHR ''$'' \<and> d = CHR ''&'' then matched @ getSubstitution matched preceding following t
      else if c = CHR ''$'' \<and> d = CHR 0x60 then preceding @ getSubstitution matched preceding following t
      else if c = CHR ''$'' \<and> d = CHR 0x27 then following @ getSubstitution matched preceding following t
      else c # getSubstitution matched preceding following (d # t))"

text \<open>
  \<^verbatim>\<open>s.replace(/pat/g, replacement)\<close> for a pattern that is literal text: the matches are
  taken from left to right and do not overlap; \<open>preceding\<close> is the part of the subject
  already scanned, \<open>rest\<close> the part still to scan. The inserted text is appended to the
  output and never scanned. (The two patterns of the source are not empty; for an empty
  pattern the model returns the rest unchanged.)
\<close>

function replace_global :: "string \<Rightarrow> string \<Rightarrow> string \<Rightarrow> string \<Rightarrow> string" where
  "replace_global pat replacement preceding rest =
     (if pat = [] \<or> rest = [] then rest
      else if prefix pat rest then
        getSubstitution pat preceding (drop (length pat) rest) replacement
          @ replace_global pat replacement (preceding @ pat) (drop (length pat) rest)
      else hd rest # replace_global pat replacement (preceding @ [hd rest]) (tl rest))"
  by pat_completeness auto
termination
  by (relation "measure (\<lambda>(pat, replacement, preceding, rest). length rest)") auto

definition replaceAll :: "string \<Rightarrow> string \<Rightarrow> string \<Rightarrow> string" where
  "replaceAll pat replacement s = replace_global pat replacement [] s"

text \<open>
  The first statement of the \<^verbatim>\<open>try\<close> block after the path check:
  \<^verbatim>\<open>context.terminalCommand.replace(/{DIR}/g, workingDirectory).replace(/{CMD}/g, command)\<close>,
  two passes, the second over the output of the first.
\<close>

definition substitute :: "LaunchContext \<Rightarrow> string" where
  "substitute ctx =
     replaceAll ''{CMD}'' (command ctx)
       (replaceAll ''{DIR}'' (workingDirectory ctx) (ctxTerminalCommand ctx))"

section \<open>The host: platform, path module, file system, process spawning\<close>

text \<open>
  What \<^verbatim>\<open>child_process.spawn\<close> is called with: the executable, the argument vector and
  the \<^verbatim>\<open>shell\<close> option (the options \<^verbatim>\<open>detached\<close>, \<^verbatim>\<open>stdio\<close> and \<^verbatim>\<open>windowsHide\<close> are constants).
\<close>

record SpawnCall =
  spawn_file :: string
  spawn_args :: "string list"
  spawn_shell :: bool

text \<open>
  The argument of the child's \<^verbatim>\<open>error\<close> event is a \<^verbatim>\<open>NodeJS.ErrnoException\<close>: an optional
  \<^verbatim>\<open>code\<close> and a \<^verbatim>\<open>message\<close>.
\<close>

record ErrnoException =
  code :: "string option"
  message :: string

text \<open>
  What the host does with one call of \<^verbatim>\<open>spawn\<close>, as far as \<^verbatim>\<open>spawnTerminal\<close> can observe it:
  the call (or \<^verbatim>\<open>child.unref\<close>) throws an \<^verbatim>\<open>Error\<close> with a message; or the child emits
  \<^verbatim>\<open>error\<close> before the 100 ms timer fires; or no error is reported before the timer fires.
\<close>

datatype SpawnOutcome =
    SpawnThrows string
  | ErrorEvent ErrnoException
  | NoErrorReported

text \<open>
  The environment the module runs in. \<^verbatim>\<open>path.normalize\<close> and \<^verbatim>\<open>path.join\<close> belong to the
  Node.js runtime and differ between platforms, so they are fields of the host.
  \<open>isDirectory\<close> is the host file system: which paths are existing directories
  (terminal.ts never reads it; it is part of the host so that statements about
  directories that do not exist can be made).
\<close>

record Host =
  platform :: Platform
  path_normalize :: "string \<Rightarrow> string"
  path_join :: "string \<Rightarrow> string \<Rightarrow> string"
  isDirectory :: "string \<Rightarrow> bool"
  spawn :: "SpawnCall \<Rightarrow> SpawnOutcome"

subsection \<open>The POSIX path module\<close>

text \<open>
  \<^verbatim>\<open>path.posix.normalize\<close> as Node.js documents and implements it: the path is cut at
  \<^verbatim>\<open>/\<close>; empty segments and \<^verbatim>\<open>.\<close> are dropped; \<^verbatim>\<open>..\<close> removes the segment before it, and
  is kept only in a relative path that has nothing left to remove; a leading and a
  trailing separator are kept; the empty result is \<^verbatim>\<open>.\<close>.
\<close>

fun split_on :: "char \<Rightarrow> string \<Rightarrow> string list" where
  "split_on sep [] = [[]]"
| "split_on sep (c # cs) =
     (if c = sep then [] # split_on sep cs
      else (case split_on sep cs of
              [] \<Rightarrow> [[c]]
            | seg # segs \<Rightarrow> (c # seg) # segs))"

fun join_with :: "string \<Rightarrow> string list \<Rightarrow> string" where
  "join_with sep [] = []"
| "join_with sep [x] = x"
| "join_with sep (x # y # ys) = x @ sep @ join_with sep (y # ys)"

text \<open>The stack \<open>acc\<close> holds the segments kept so far, last one first.\<close>

fun normalizeString :: "bool \<Rightarrow> string list \<Rightarrow> string list \<Rightarrow> string list" where
  "normalizeString allowAboveRoot acc [] = rev acc"
| "normalizeString allowAboveRoot acc (seg # segs) =
     (if seg = [] \<or> seg = ''.'' then normalizeString allowAboveRoot acc segs
      else if seg = ''..'' then
        (case acc of
           [] \<Rightarrow> normalizeString allowAboveRoot (if allowAboveRoot then [''..''] else []) segs
         | lastSeg # below \<Rightarrow>
             if lastSeg = ''..''
             then normalizeString allowAboveRoot (if allowAboveRoot then ''..'' # acc else acc) segs
             else normalizeString allowAboveRoot below segs)
      else normalizeString allowAboveRoot (seg # acc) segs)"

definition posix_normalize :: "string \<Rightarrow> string" where
  "posix_normalize path =
     (if path = [] then ''.''
      else
        let isAbsolute = (hd path = CHR ''/'');
            trailingSeparator = (last path = CHR ''/'');
            p = join_with ''/'' (normalizeString (\<not> isAbsolute) [] (split_on CHR ''/'' path))
        in if p = [] then (if isAbsolute then ''/'' else if trailingSeparator then ''./'' else ''.'')
           else (if isAbsolute then ''/'' else []) @ p @ (if trailingSeparator then ''/'' else []))"

text \<open>\<^verbatim>\<open>path.posix.join\<close> of two arguments: the non-empty ones, joined by \<^verbatim>\<open>/\<close>, normalized.\<close>

definition posix_join :: "string \<Rightarrow> string \<Rightarrow> string" where
  "posix_join a b =
     (let parts = filter (\<lambda>x. x \<noteq> []) [a, b]
      in if parts = [] then ''.'' else posix_normalize (join_with ''/'' parts))"

text \<open>A host with the POSIX path module (macOS, Linux and the other Unix platforms).\<close>

definition posix_host :: "Platform \<Rightarrow> (string \<Rightarrow> bool) \<Rightarrow> (SpawnCall \<Rightarrow> SpawnOutcome) \<Rightarrow> Host" where
  "posix_host p fs sp =
     \<lparr> platform = p, path_normalize = posix_normalize, path_join = posix_join,
       isDirectory = fs, spawn = sp \<rparr>"

text \<open>
  A POSIX host on which no path is an existing directory and on which \<^verbatim>\<open>spawn\<close> never
  reports an error, for evaluating the module on concrete inputs.
\<close>

definition no_directories :: "string \<Rightarrow> bool" where
  "no_directories p = False"

definition spawn_ok :: "SpawnCall \<Rightarrow> SpawnOutcome" where
  "spawn_ok call = NoErrorReported"

definition bare_host :: "Platform \<Rightarrow> Host" where
  "bare_host p = posix_host p no_directories spawn_ok"

text \<open>Hosts on which every \<^verbatim>\<open>spawn\<close> emits the given error, or throws.\<close>

definition spawn_emits :: "ErrnoException \<Rightarrow> SpawnCall \<Rightarrow> SpawnOutcome" where
  "spawn_emits err call = ErrorEvent err"

definition spawn_throws :: "string \<Rightarrow> SpawnCall \<Rightarrow> SpawnOutcome" where
  "spawn_throws m call = SpawnThrows m"

definition failing_host :: "ErrnoException \<Rightarrow> Host" where
  "failing_host err = posix_host ''linux'' no_directories (spawn_emits err)"

definition throwing_host :: "string \<Rightarrow> Host" where
  "throwing_host m = posix_host ''linux'' no_directories (spawn_throws m)"

section \<open>terminal.ts\<close>

subsection \<open>validatePath\<close>

definition validatePath :: "Host \<Rightarrow> string \<Rightarrow> bool" where
  "validatePath host filePath =
     (let normalized = path_normalize host filePath
      in if str_includes normalized ''..'' then False else True)"

subsection \<open>Exceptions\<close>

text \<open>
  A computation that may throw has the type \<open>string + 'a\<close>: \<open>Inl m\<close> is a thrown
  \<^verbatim>\<open>Error\<close> with message \<open>m\<close> (for an \<^verbatim>\<open>async\<close> function: the promise is rejected),
  \<open>Inr v\<close> is the value returned (the promise is resolved with \<open>v\<close>).
  \<open>try_catch\<close> is the \<^verbatim>\<open>try { ... } catch (error) { ... }\<close> statement.
\<close>

definition try_catch :: "string + 'a \<Rightarrow> (string \<Rightarrow> string + 'a) \<Rightarrow> string + 'a" where
  "try_catch body handler = (case body of Inl m \<Rightarrow> handler m | Inr v \<Rightarrow> Inr v)"

subsection \<open>buildLaunchContext\<close>

text \<open>
  Of the Obsidian objects only what the function reads: whether \<^verbatim>\<open>app.vault.adapter\<close> is a
  \<^verbatim>\<open>FileSystemAdapter\<close> (and then its base path), and the path of \<^verbatim>\<open>file.parent\<close>, which may
  be null.
\<close>

datatype DataAdapter = FileSystemAdapter string | OtherAdapter

record App =
  vault_adapter :: DataAdapter

record TFile =
  parent :: "string option"

text \<open>
  The white space of the language (what \<^verbatim>\<open>trim\<close> removes and \<^verbatim>\<open>\s\<close> matches) among the
  code units modelled: tab, line feed, vertical tab, form feed, carriage return, space
  and no-break space.
\<close>

definition isWhiteSpace :: "char \<Rightarrow> bool" where
  "isWhiteSpace c \<longleftrightarrow>
     c = CHR 0x09 \<or> c = CHR 0x0A \<or> c = CHR 0x0B \<or> c = CHR 0x0C \<or> c = CHR 0x0D
     \<or> c = CHR 0x20 \<or> c = CHR 0xA0"

definition trim :: "string \<Rightarrow> string" where
  "trim s = rev (dropWhile isWhiteSpace (rev (dropWhile isWhiteSpace s)))"

definition buildLaunchContext ::
    "Host \<Rightarrow> App \<Rightarrow> TFile \<Rightarrow> LauncherSettings \<Rightarrow> string + LaunchContext" where
  "buildLaunchContext host app tfile settings =
     (case vault_adapter app of
        OtherAdapter \<Rightarrow> Inl NOT_DESKTOP
      | FileSystemAdapter vaultPath \<Rightarrow>
          (case parent tfile of
             None \<Rightarrow> Inl INVALID_PATH
           | Some parentPath \<Rightarrow>
               Inr \<lparr> workingDirectory = path_join host vaultPath parentPath,
                     command =
                       (if trim (additionalArgs settings) \<noteq> []
                        then claudeCommand settings @ '' '' @ additionalArgs settings
                        else claudeCommand settings),
                     ctxTerminalCommand = terminalCommand settings \<rparr>))"

subsection \<open>spawnTerminal\<close>

text \<open>
  The promise is settled once, by whichever comes first: the \<^verbatim>\<open>catch\<close> block, the \<^verbatim>\<open>error\<close>
  handler, or the timer.
\<close>

definition spawnTerminal :: "Host \<Rightarrow> string \<Rightarrow> string list \<Rightarrow> bool \<Rightarrow> string + LaunchResult" where
  "spawnTerminal host executable args useShell =
     try_catch
       (case spawn host \<lparr> spawn_file = executable, spawn_args = args, spawn_shell = useShell \<rparr> of
          SpawnThrows m \<Rightarrow> Inl m
        | ErrorEvent err \<Rightarrow>
            Inr \<lparr> success = False,
                  error = Some (if code err = Some ''ENOENT'' then COMMAND_NOT_FOUND
                                else if code err = Some ''EACCES'' then PERMISSION_DENIED
                                else SPAWN_FAILED @ message err) \<rparr>
        | NoErrorReported \<Rightarrow> Inr \<lparr> success = True, error = None \<rparr>)
       (\<lambda>m. Inr \<lparr> success = False, error = Some (SPAWN_FAILED @ m) \<rparr>)"

subsection \<open>launchTerminal\<close>

text \<open>
  The regular expression \<^verbatim>\<open>/osascript\s+-e\s+'(.+)'/\<close>. Tried at the start of \<open>s\<close>: the
  word, white space, \<^verbatim>\<open>-e\<close>, white space, a quote, then the group. Each run \<^verbatim>\<open>\s+\<close> is
  followed by a character that is not white space, so it takes all the white space
  there is. The group \<^verbatim>\<open>.+\<close> is greedy and does not cross a line terminator: it ends
  before the last quote of the line, and holds at least one character.
\<close>

definition isLineTerminator :: "char \<Rightarrow> bool" where
  "isLineTerminator c \<longleftrightarrow> c = CHR 0x0A \<or> c = CHR 0x0D"

definition greedy_group :: "string \<Rightarrow> string option" where
  "greedy_group line =
     (let n = length (dropWhile (\<lambda>c. c \<noteq> CHR 0x27) (rev line))
      in if 2 \<le> n then Some (take (n - 1) line) else None)"

definition osascript_match_here :: "string \<Rightarrow> string option" where
  "osascript_match_here s =
     (if \<not> prefix ''osascript'' s then None
      else
        let r1 = drop 9 s; r2 = dropWhile isWhiteSpace r1
        in if takeWhile isWhiteSpace r1 = [] \<or> \<not> prefix ''-e'' r2 then None
           else
             let r3 = drop 2 r2; r4 = dropWhile isWhiteSpace r3
             in if takeWhile isWhiteSpace r3 = [] \<or> \<not> prefix [CHR 0x27] r4 then None
                else greedy_group (takeWhile (\<lambda>c. \<not> isLineTerminator c) (drop 1 r4)))"

text \<open>\<^verbatim>\<open>s.match(re)\<close> without the global flag: the leftmost start at which the expression matches.\<close>

fun osascript_match :: "string \<Rightarrow> string option" where
  "osascript_match [] = None"
| "osascript_match (c # cs) =
     (case osascript_match_here (c # cs) of
        Some script \<Rightarrow> Some script
      | None \<Rightarrow> osascript_match cs)"

text \<open>\<^verbatim>\<open>s.replace(pat, '')\<close> with a string pattern: the first occurrence is removed.\<close>

fun remove_first :: "string \<Rightarrow> string \<Rightarrow> string" where
  "remove_first pat [] = []"
| "remove_first pat (c # cs) =
     (if prefix pat (c # cs) then drop (length pat) (c # cs) else c # remove_first pat cs)"

text \<open>
  The \<^verbatim>\<open>if\<close>/\<^verbatim>\<open>else if\<close>/\<^verbatim>\<open>else\<close> on \<^verbatim>\<open>process.platform\<close> that chooses \<^verbatim>\<open>executable\<close>, \<^verbatim>\<open>args\<close>
  and \<^verbatim>\<open>useShell\<close> from the substituted command.
\<close>

definition resolveCommand :: "Platform \<Rightarrow> string \<Rightarrow> SpawnCall" where
  "resolveCommand pf terminalCmd =
     (if pf = ''win32'' then
        \<lparr> spawn_file = ''cmd'', spawn_args = [''/c'', terminalCmd], spawn_shell = False \<rparr>
      else if pf = ''darwin'' \<and> str_includes terminalCmd ''osascript'' then
        \<lparr> spawn_file = ''osascript'',
          spawn_args =
            (case osascript_match terminalCmd of
               Some script \<Rightarrow> [''-e'', script]
             | None \<Rightarrow> [''-e'', remove_first ''osascript -e '' terminalCmd]),
          spawn_shell = False \<rparr>
      else
        \<lparr> spawn_file = ''/bin/sh'', spawn_args = [''-c'', terminalCmd], spawn_shell = False \<rparr>)"

definition launchTerminal :: "Host \<Rightarrow> LaunchContext \<Rightarrow> string + LaunchResult" where
  "launchTerminal host ctx =
     try_catch
       (if \<not> validatePath host (workingDirectory ctx)
        then Inr \<lparr> success = False, error = Some INVALID_PATH \<rparr>
        else
          let call = resolveCommand (platform host) (substitute ctx)
          in spawnTerminal host (spawn_file call) (spawn_args call) (spawn_shell call))
       (\<lambda>m. Inr \<lparr> success = False, error = Some (SPAWN_FAILED @ m) \<rparr>)"

section \<open>settings.ts: the change handler of the terminal command field\<close>

definition PLACEHOLDER_NOTICE :: string where
  "PLACEHOLDER_NOTICE = ''Terminal command must contain {DIR} and {CMD} placeholders''"

text \<open>
  The handler shows a notice or not, then stores the value and saves the settings:
  the result is the notice shown, if any, and the settings after the call.
\<close>

definition terminalCommand_onChange ::
    "string \<Rightarrow> LauncherSettings \<Rightarrow> string option \<times> LauncherSettings" where
  "terminalCommand_onChange val settings =
     (if val \<noteq> [] \<and> (\<not> str_includes val ''{DIR}'' \<or> \<not> str_includes val ''{CMD}'')
      then Some PLACEHOLDER_NOTICE else None,
      settings\<lparr>terminalCommand := val\<rparr>)"

section \<open>The specification's template validation\<close>

text \<open>
  The specification describes an operation \<^verbatim>\<open>validate\<close> with the error kinds below. The
  source has no such function: its only template check is the change handler above.
  \<open>validate_spec\<close> follows the specification's words, to be compared with the handler:
  a blank or whitespace-only template is \<open>EmptyTemplate\<close>; otherwise a template in
  which either placeholder is absent is \<open>MissingPlaceholder\<close>; otherwise it succeeds.
\<close>

datatype ErrorKind =
    EmptyTemplate
  | MissingPlaceholder
  | InvalidDirectory
  | CommandNotFound
  | PermissionDenied
  | SpawnFailed

definition validate_spec :: "string \<Rightarrow> ErrorKind + unit" where
  "validate_spec template =
     (if list_all isWhiteSpace template then Inl EmptyTemplate
      else if \<not> (str_includes template ''{DIR}'' \<and> str_includes template ''{CMD}'')
      then Inl MissingPlaceholder
      else Inr ())"

section \<open>Concrete inputs\<close>

definition sh_call :: SpawnCall where
  "sh_call = \<lparr> spawn_file = ''/bin/sh'', spawn_args = [''-c'', ''xterm''], spawn_shell = False \<rparr>"

definition enoent :: ErrnoException where
  "enoent = \<lparr> code = Some ''ENOENT'', message = ''spawn /bin/sh ENOENT'' \<rparr>"

definition eacces :: ErrnoException where
  "eacces = \<lparr> code = Some ''EACCES'', message = ''spawn /bin/sh EACCES'' \<rparr>"

definition eagain :: ErrnoException where
  "eagain = \<lparr> code = Some ''EAGAIN'', message = ''spawn /bin/sh EAGAIN'' \<rparr>"

text \<open>
  The default macOS launch in \<^verbatim>\<open>/tmp/proj\<close>, its script, and a script of two lines.
\<close>

definition terminal_script :: string where
  \<open>terminal_script = ''tell application "Terminal" to do script "cd /tmp/proj && claude-code"''\<close>

definition darwin_ctx :: LaunchContext where
  "darwin_ctx = \<lparr> workingDirectory = ''/tmp/proj'', command = ''claude-code'',
                  ctxTerminalCommand = darwin_default \<rparr>"

definition two_line_script :: string where
  "two_line_script = ''display dialog 1'' @ [CHR 0x0A] @ ''beep''"

section \<open>Basic facts\<close>

lemma str_includes_sublist: "str_includes s sub \<longleftrightarrow> sublist sub s"
  by (induction s) (simp_all add: sublist_Cons_right)

lemma try_catch_Inr: "try_catch (Inr v) handler = Inr v"
  by (simp add: try_catch_def)

text \<open>\<^verbatim>\<open>spawnTerminal\<close> settles its promise with a result in each of the three cases.\<close>

lemma spawnTerminal_cases:
  "spawnTerminal host executable args useShell =
     Inr (case spawn host \<lparr> spawn_file = executable, spawn_args = args, spawn_shell = useShell \<rparr> of
            SpawnThrows m \<Rightarrow> \<lparr> success = False, error = Some (SPAWN_FAILED @ m) \<rparr>
          | ErrorEvent err \<Rightarrow>
              \<lparr> success = False,
                error = Some (if code err = Some ''ENOENT'' then COMMAND_NOT_FOUND
                              else if code err = Some ''EACCES'' then PERMISSION_DENIED
                              else SPAWN_FAILED @ message err) \<rparr>
          | NoErrorReported \<Rightarrow> \<lparr> success = True, error = None \<rparr>)"
  by (simp add: spawnTerminal_def try_catch_def split: SpawnOutcome.split)

lemma spawnTerminal_not_thrown:
  "try_catch (spawnTerminal host e a u) handler = spawnTerminal host e a u"
  by (simp add: spawnTerminal_cases try_catch_Inr)

lemma launchTerminal_invalid:
  "\<not> validatePath host (workingDirectory ctx) \<Longrightarrow>
     launchTerminal host ctx = Inr \<lparr> success = False, error = Some INVALID_PATH \<rparr>"
  by (simp add: launchTerminal_def try_catch_Inr)

lemma launchTerminal_valid:
  "validatePath host (workingDirectory ctx) \<Longrightarrow>
     launchTerminal host ctx =
       spawnTerminal host (spawn_file (resolveCommand (platform host) (substitute ctx)))
         (spawn_args (resolveCommand (platform host) (substitute ctx)))
         (spawn_shell (resolveCommand (platform host) (substitute ctx)))"
  by (simp add: launchTerminal_def Let_def spawnTerminal_not_thrown)

lemma validatePath_iff:
  "validatePath host p \<longleftrightarrow> \<not> str_includes (path_normalize host p) ''..''"
  by (simp add: validatePath_def)

text \<open>None of the results of \<^verbatim>\<open>spawnTerminal\<close> is the invalid-path failure.\<close>

lemma spawnTerminal_not_invalid_path:
  "spawnTerminal host e a u \<noteq> Inr \<lparr> success = False, error = Some INVALID_PATH \<rparr>"
  by (simp add: spawnTerminal_cases INVALID_PATH_def SPAWN_FAILED_def COMMAND_NOT_FOUND_def
      PERMISSION_DENIED_def split: SpawnOutcome.split)

text \<open>A whitespace-only string has no brace, hence no placeholder.\<close>

lemma whitespace_lacks_placeholder:
  "list_all isWhiteSpace t \<Longrightarrow> \<not> str_includes t ''{DIR}''"
proof
  assume w: "list_all isWhiteSpace t" and i: "str_includes t ''{DIR}''"
  from i have "set ''{DIR}'' \<subseteq> set t"
    by (simp only: str_includes_sublist set_mono_sublist)
  then have "CHR ''{'' \<in> set t" by simp
  with w have "isWhiteSpace CHR ''{''" by (simp add: list_all_iff)
  then show False by (simp add: isWhiteSpace_def)
qed

subsection \<open>Substitution without replacement patterns\<close>

text \<open>
  A replacement without a dollar sign is inserted as it is, wherever the match is, and
  the scan then has the familiar recursion on the subject.
\<close>

lemma getSubstitution_plain:
  "CHR ''$'' \<notin> set r \<Longrightarrow> getSubstitution m p f r = r"
  by (induction m p f r rule: getSubstitution.induct) auto

lemma replace_global_plain:
  assumes "CHR ''$'' \<notin> set r"
  shows "replace_global pat r pre s = replace_global pat r pre' s"
proof (induction s arbitrary: pre pre' rule: length_induct)
  case (1 s)
  show ?case
  proof (cases "pat = [] \<or> s = []")
    case True
    then show ?thesis
      by (simp add: replace_global.simps [of pat r _ s])
  next
    case False
    then have ne: "pat \<noteq> []" "s \<noteq> []" by simp_all
    show ?thesis
    proof (cases "prefix pat s")
      case True
      from ne have "length (drop (length pat) s) < length s" by simp
      with 1 have "replace_global pat r (pre @ pat) (drop (length pat) s)
          = replace_global pat r (pre' @ pat) (drop (length pat) s)"
        by blast
      with ne True assms show ?thesis
        by (simp add: replace_global.simps [of pat r _ s] getSubstitution_plain)
    next
      case np: False
      from ne have "length (tl s) < length s" by simp
      with 1 have "replace_global pat r (pre @ [hd s]) (tl s)
          = replace_global pat r (pre' @ [hd s]) (tl s)"
        by blast
      with ne np show ?thesis
        by (simp add: replace_global.simps [of pat r _ s])
    qed
  qed
qed

lemma replaceAll_Nil: "replaceAll pat r [] = []"
  by (simp add: replaceAll_def)

lemma replaceAll_Cons:
  assumes "CHR ''$'' \<notin> set r" and "pat \<noteq> []"
  shows "replaceAll pat r (c # cs) =
           (if prefix pat (c # cs) then r @ replaceAll pat r (drop (length pat) (c # cs))
            else c # replaceAll pat r cs)"
proof -
  have a: "replace_global pat r ([] @ pat) s = replace_global pat r [] s" for s
    using assms(1) by (rule replace_global_plain)
  have b: "replace_global pat r ([] @ [c]) s = replace_global pat r [] s" for s
    using assms(1) by (rule replace_global_plain)
  have g: "getSubstitution pat [] (drop (length pat) (c # cs)) r = r"
    using assms(1) by (rule getSubstitution_plain)
  have "replace_global pat r [] (c # cs) =
      (if prefix pat (c # cs)
       then getSubstitution pat [] (drop (length pat) (c # cs)) r
              @ replace_global pat r ([] @ pat) (drop (length pat) (c # cs))
       else c # replace_global pat r ([] @ [c]) cs)"
    using assms(2) by (subst replace_global.simps) (simp del: drop_Cons append_Nil)
  then show ?thesis
    by (simp only: replaceAll_def a b g)
qed

text \<open>A literal block that the pattern cannot overlap is copied, and splits the scan.\<close>

lemma replaceAll_skip_block:
  assumes r: "CHR ''$'' \<notin> set r" and pat: "pat \<noteq> []"
    and inside: "\<And>k. k < length w \<Longrightarrow> \<not> prefix pat (drop k w @ v)"
  shows "replaceAll pat r (w @ v) = w @ replaceAll pat r v"
  using inside
proof (induction w)
  case Nil
  then show ?case by simp
next
  case (Cons c w)
  from Cons.prems [of 0] have "\<not> prefix pat ((c # w) @ v)" by simp
  moreover have "replaceAll pat r (w @ v) = w @ replaceAll pat r v"
  proof (rule Cons.IH)
    fix k assume "k < length w"
    with Cons.prems [of "Suc k"] show "\<not> prefix pat (drop k w @ v)" by simp
  qed
  ultimately show ?case by (simp add: replaceAll_Cons [OF r pat])
qed

lemma replaceAll_before_block:
  assumes r: "CHR ''$'' \<notin> set r" and pat: "pat \<noteq> []"
    and before: "\<And>u. u \<noteq> [] \<Longrightarrow> prefix pat (u @ t) \<Longrightarrow> prefix pat u"
  shows "replaceAll pat r (a @ t) = replaceAll pat r a @ replaceAll pat r t"
proof (induction a rule: length_induct)
  case (1 a)
  show ?case
  proof (cases a)
    case Nil
    then show ?thesis by (simp add: replaceAll_Nil)
  next
    case (Cons c cs)
    show ?thesis
    proof (cases "prefix pat a")
      case True
      then have p: "prefix pat (a @ t)" by (rule prefix_prefix)
      from True have d: "drop (length pat) (a @ t) = drop (length pat) a @ t"
        by (simp add: prefix_length_le)
      from pat Cons have "length (drop (length pat) a) < length a" by simp
      with 1 have "replaceAll pat r (drop (length pat) a @ t)
          = replaceAll pat r (drop (length pat) a) @ replaceAll pat r t"
        by blast
      with True p d show ?thesis
        unfolding Cons append_Cons replaceAll_Cons [OF r pat] by simp
    next
      case False
      with before [of a] Cons have np: "\<not> prefix pat (a @ t)" by blast
      from Cons have "length cs < length a" by simp
      with 1 have "replaceAll pat r (cs @ t) = replaceAll pat r cs @ replaceAll pat r t"
        by blast
      with False np show ?thesis
        unfolding Cons append_Cons replaceAll_Cons [OF r pat] by simp
    qed
  qed
qed

text \<open>
  Neither placeholder can overlap an occurrence of \<^verbatim>\<open>{CMD}\<close>: a brace is the first and the
  last character of both, and occurs nowhere else in them.
\<close>

lemma CMD_before_CMD:
  "u \<noteq> [] \<Longrightarrow> prefix ''{CMD}'' (u @ ''{CMD}'' @ v) \<Longrightarrow> prefix ''{CMD}'' u"
  by (auto simp: prefix_append Cons_eq_append_conv)

lemma DIR_before_CMD:
  "u \<noteq> [] \<Longrightarrow> prefix ''{DIR}'' (u @ ''{CMD}'' @ v) \<Longrightarrow> prefix ''{DIR}'' u"
  by (auto simp: prefix_append Cons_eq_append_conv)

lemma DIR_not_in_CMD:
  "k < length ''{CMD}'' \<Longrightarrow> \<not> prefix ''{DIR}'' (drop k ''{CMD}'' @ v)"
  by (auto simp: less_Suc_eq)

lemma replaceAll_DIR_split:
  assumes "CHR ''$'' \<notin> set wd"
  shows "replaceAll ''{DIR}'' wd (a @ ''{CMD}'' @ b)
           = replaceAll ''{DIR}'' wd a @ ''{CMD}'' @ replaceAll ''{DIR}'' wd b"
proof -
  have "replaceAll ''{DIR}'' wd (a @ ''{CMD}'' @ b)
          = replaceAll ''{DIR}'' wd a @ replaceAll ''{DIR}'' wd (''{CMD}'' @ b)"
    by (rule replaceAll_before_block [OF assms]) (simp, rule DIR_before_CMD)
  also have "replaceAll ''{DIR}'' wd (''{CMD}'' @ b) = ''{CMD}'' @ replaceAll ''{DIR}'' wd b"
    by (rule replaceAll_skip_block [OF assms]) (simp, rule DIR_not_in_CMD)
  finally show ?thesis .
qed

lemma replaceAll_CMD_split:
  assumes "CHR ''$'' \<notin> set cmd"
  shows "replaceAll ''{CMD}'' cmd (a @ ''{CMD}'' @ b)
           = replaceAll ''{CMD}'' cmd a @ cmd @ replaceAll ''{CMD}'' cmd b"
proof -
  have "replaceAll ''{CMD}'' cmd (a @ ''{CMD}'' @ b)
          = replaceAll ''{CMD}'' cmd a @ replaceAll ''{CMD}'' cmd (''{CMD}'' @ b)"
    by (rule replaceAll_before_block [OF assms]) (simp, rule CMD_before_CMD)
  also have "replaceAll ''{CMD}'' cmd (''{CMD}'' @ b) = cmd @ replaceAll ''{CMD}'' cmd b"
    using assms by (simp add: replaceAll_Cons)
  finally show ?thesis .
qed

subsection \<open>The regular expression on a single-quoted script\<close>

lemma takeWhile_all_then:
  "list_all P xs \<Longrightarrow> (ys = [] \<or> \<not> P (hd ys)) \<Longrightarrow> takeWhile P (xs @ ys) = xs"
  by (cases ys) (auto simp: list_all_iff)

lemma dropWhile_all_then:
  "list_all P xs \<Longrightarrow> (ys = [] \<or> \<not> P (hd ys)) \<Longrightarrow> dropWhile P (xs @ ys) = ys"
  by (cases ys) (auto simp: list_all_iff)

lemma greedy_group_last_quote:
  assumes "payload \<noteq> []" and "CHR 0x27 \<notin> set tail"
  shows "greedy_group (payload @ [CHR 0x27] @ tail) = Some payload"
proof -
  have "x \<noteq> CHR 0x27" if "x \<in> set (rev tail)" for x
    using that assms(2) by auto
  then have "dropWhile (\<lambda>c. c \<noteq> CHR 0x27) (rev tail @ CHR 0x27 # rev payload)
          = dropWhile (\<lambda>c. c \<noteq> CHR 0x27) (CHR 0x27 # rev payload)"
    by (rule dropWhile_append2)
  then have "dropWhile (\<lambda>c. c \<noteq> CHR 0x27) (rev (payload @ [CHR 0x27] @ tail))
          = CHR 0x27 # rev payload"
    by simp
  with assms(1) show ?thesis
    by (cases payload) (simp_all add: greedy_group_def)
qed

lemma osascript_match_here_form:
  assumes ws1: "ws1 \<noteq> []" "list_all isWhiteSpace ws1"
    and ws2: "ws2 \<noteq> []" "list_all isWhiteSpace ws2"
    and payload: "payload \<noteq> []" "list_all (\<lambda>c. \<not> isLineTerminator c) payload"
    and rest: "CHR 0x27 \<notin> set (takeWhile (\<lambda>c. \<not> isLineTerminator c) rest)"
  shows "osascript_match_here
           (''osascript'' @ ws1 @ ''-e'' @ ws2 @ [CHR 0x27] @ payload @ [CHR 0x27] @ rest)
         = Some payload"
proof -
  let ?r4 = "[CHR 0x27] @ payload @ [CHR 0x27] @ rest"
  let ?r3 = "ws2 @ ?r4"
  let ?r2 = "''-e'' @ ?r3"
  let ?r1 = "ws1 @ ?r2"
  have d1: "drop 9 (''osascript'' @ ?r1) = ?r1" by simp
  have t1: "takeWhile isWhiteSpace ?r1 = ws1"
    using ws1(2) by (rule takeWhile_all_then) (simp add: isWhiteSpace_def)
  have w1: "dropWhile isWhiteSpace ?r1 = ?r2"
    using ws1(2) by (rule dropWhile_all_then) (simp add: isWhiteSpace_def)
  have d2: "drop 2 ?r2 = ?r3" by simp
  have t2: "takeWhile isWhiteSpace ?r3 = ws2"
    using ws2(2) by (rule takeWhile_all_then) (simp add: isWhiteSpace_def)
  have w2: "dropWhile isWhiteSpace ?r3 = ?r4"
    using ws2(2) by (rule dropWhile_all_then) (simp add: isWhiteSpace_def)
  have d3: "drop 1 ?r4 = payload @ [CHR 0x27] @ rest" by simp
  have line: "takeWhile (\<lambda>c. \<not> isLineTerminator c) (payload @ [CHR 0x27] @ rest)
                = payload @ [CHR 0x27] @ takeWhile (\<lambda>c. \<not> isLineTerminator c) rest"
    using payload(2) by (simp add: list_all_iff isLineTerminator_def)
  have p1: "prefix ''osascript'' (''osascript'' @ ?r1)" by simp
  have p2: "prefix ''-e'' ?r2" by simp
  have p3: "prefix [CHR 0x27] ?r4" by simp
  have "osascript_match_here (''osascript'' @ ?r1)
          = greedy_group (payload @ [CHR 0x27] @ takeWhile (\<lambda>c. \<not> isLineTerminator c) rest)"
    unfolding osascript_match_here_def Let_def d1 t1 w1 d2 t2 w2 d3 line
    using p1 p2 p3 ws1(1) ws2(1) by (simp only: if_False if_True simp_thms)
  also have "\<dots> = Some payload"
    using payload(1) rest by (rule greedy_group_last_quote)
  finally show ?thesis .
qed

lemma osascript_match_here_imp_match:
  "osascript_match_here s = Some script \<Longrightarrow> osascript_match s = Some script"
  by (cases s) (simp_all add: osascript_match_here_def)

lemma resolveCommand_darwin_osascript:
  "str_includes t ''osascript'' \<Longrightarrow>
     resolveCommand ''darwin'' t =
       \<lparr> spawn_file = ''osascript'',
         spawn_args = [''-e'', case osascript_match t of Some script \<Rightarrow> script
                               | None \<Rightarrow> remove_first ''osascript -e '' t],
         spawn_shell = False \<rparr>"
  by (simp add: resolveCommand_def split: option.split)

section \<open>Claims\<close>

text \<open>
  C8. The default template of an unknown platform (any platform string other than
  \<^verbatim>\<open>darwin\<close>, \<^verbatim>\<open>win32\<close> and \<^verbatim>\<open>linux\<close>) is the Linux default, character for character; the
  whole default settings coincide, and \<^verbatim>\<open>getDefaultSettings\<close> is a total function of
  the platform, so an unknown platform is never an error.
\<close>

theorem unknown_platform_default:
  "pf \<noteq> ''darwin'' \<Longrightarrow> pf \<noteq> ''win32'' \<Longrightarrow> pf \<noteq> ''linux'' \<Longrightarrow>
     getDefaultSettings pf = getDefaultSettings ''linux''
     \<and> terminalCommand (getDefaultSettings pf) = linux_default"
  by (simp add: getDefaultSettings_def linux_default_def)

theorem unknown_platform_default_witness:
  "getDefaultSettings ''freebsd'' = getDefaultSettings ''linux''
     \<and> terminalCommand (getDefaultSettings ''freebsd'') = linux_default"
proof -
  have "''freebsd'' \<noteq> ''darwin''" "''freebsd'' \<noteq> ''win32''" "''freebsd'' \<noteq> ''linux''"
    by simp_all
  then show ?thesis by (rule unknown_platform_default)
qed

text \<open>
  C10. Whenever the normalized working directory contains the two characters \<^verbatim>\<open>..\<close>
  anywhere, \<^verbatim>\<open>validatePath\<close> rejects it and \<^verbatim>\<open>launchTerminal\<close> fails with the invalid-path
  error, on every host and for every template and command. The witness is the path
  \<^verbatim>\<open>/tmp/foo..bar\<close>, which has no parent-traversal segment.
\<close>

theorem dotdot_substring_rejected:
  "str_includes (path_normalize host (workingDirectory ctx)) ''..'' \<Longrightarrow>
     \<not> validatePath host (workingDirectory ctx)
     \<and> launchTerminal host ctx = Inr \<lparr> success = False, error = Some INVALID_PATH \<rparr>"
  by (simp add: launchTerminal_invalid validatePath_def)

theorem dotdot_substring_rejected_witness:
  "str_includes (posix_normalize ''/tmp/foo..bar'') ''..''
   \<and> \<not> validatePath (bare_host ''linux'') ''/tmp/foo..bar''
   \<and> launchTerminal (bare_host ''linux'')
        \<lparr> workingDirectory = ''/tmp/foo..bar'', command = ''claude-code'',
          ctxTerminalCommand = linux_default \<rparr>
      = Inr \<lparr> success = False, error = Some INVALID_PATH \<rparr>"
proof -
  let ?ctx = "\<lparr> workingDirectory = ''/tmp/foo..bar'', command = ''claude-code'',
                 ctxTerminalCommand = linux_default \<rparr>"
  have n: "posix_normalize ''/tmp/foo..bar'' = ''/tmp/foo..bar''"
    by (simp add: posix_normalize_def)
  have h: "str_includes (path_normalize (bare_host ''linux'') (workingDirectory ?ctx)) ''..''"
    by (simp add: bare_host_def posix_host_def n)
  from dotdot_substring_rejected [OF h] n show ?thesis by simp
qed

text \<open>
  C9. On macOS, a substituted command that does not contain \<^verbatim>\<open>osascript\<close> is resolved as
  on Linux: \<^verbatim>\<open>/bin/sh\<close> with the arguments \<^verbatim>\<open>-c\<close> and the substituted string; and when the
  working directory passes the path check, that is the process \<^verbatim>\<open>launchTerminal\<close> spawns.
\<close>

theorem darwin_without_osascript:
  "platform host = ''darwin'' \<Longrightarrow> \<not> str_includes (substitute ctx) ''osascript'' \<Longrightarrow>
     resolveCommand (platform host) (substitute ctx) =
       \<lparr> spawn_file = ''/bin/sh'', spawn_args = [''-c'', substitute ctx],
         spawn_shell = False \<rparr>
     \<and> resolveCommand (platform host) (substitute ctx) =
         resolveCommand ''linux'' (substitute ctx)
     \<and> (validatePath host (workingDirectory ctx) \<longrightarrow>
          launchTerminal host ctx =
            spawnTerminal host ''/bin/sh'' [''-c'', substitute ctx] False)"
  by (simp add: resolveCommand_def launchTerminal_valid)

theorem darwin_without_osascript_witness:
  "resolveCommand ''darwin''
      (substitute \<lparr> workingDirectory = ''/tmp/proj'', command = ''run'',
                     ctxTerminalCommand = ''echo {DIR} {CMD}'' \<rparr>)
     = \<lparr> spawn_file = ''/bin/sh'', spawn_args = [''-c'', ''echo /tmp/proj run''],
         spawn_shell = False \<rparr>
   \<and> launchTerminal (bare_host ''darwin'')
        \<lparr> workingDirectory = ''/tmp/proj'', command = ''run'',
          ctxTerminalCommand = ''echo {DIR} {CMD}'' \<rparr>
      = spawnTerminal (bare_host ''darwin'') ''/bin/sh'' [''-c'', ''echo /tmp/proj run''] False"
proof -
  let ?ctx = "\<lparr> workingDirectory = ''/tmp/proj'', command = ''run'',
                 ctxTerminalCommand = ''echo {DIR} {CMD}'' \<rparr>"
  have s: "substitute ?ctx = ''echo /tmp/proj run''"
    by (simp add: substitute_def replaceAll_def)
  have p: "platform (bare_host ''darwin'') = ''darwin''"
    by (simp add: bare_host_def posix_host_def)
  have i: "\<not> str_includes (substitute ?ctx) ''osascript''"
    by (simp add: s)
  have v: "validatePath (bare_host ''darwin'') (workingDirectory ?ctx)"
    by (simp add: validatePath_def bare_host_def posix_host_def posix_normalize_def)
  from darwin_without_osascript [OF p i] v show ?thesis
    by (simp add: p s)
qed

text \<open>
  C1. Evaluation at the working directory \<^verbatim>\<open>/tmp/../etc\<close>, which has a parent-traversal
  segment: \<^verbatim>\<open>path.normalize\<close> resolves the segment, the normalized path \<^verbatim>\<open>/etc\<close> has no
  \<^verbatim>\<open>..\<close> left, \<^verbatim>\<open>validatePath\<close> accepts it, and \<^verbatim>\<open>launchTerminal\<close> goes on to spawn the
  terminal and reports success instead of the invalid-path error.
\<close>

theorem traversal_path_accepted:
  "posix_normalize ''/tmp/../etc'' = ''/etc''
   \<and> validatePath (bare_host ''linux'') ''/tmp/../etc''
   \<and> launchTerminal (bare_host ''linux'')
        \<lparr> workingDirectory = ''/tmp/../etc'', command = ''claude-code'',
          ctxTerminalCommand = linux_default \<rparr>
      = Inr \<lparr> success = True, error = None \<rparr>"
proof -
  have n: "posix_normalize ''/tmp/../etc'' = ''/etc''"
    by (simp add: posix_normalize_def)
  have v: "validatePath (bare_host ''linux'') ''/tmp/../etc''"
    by (simp add: validatePath_def bare_host_def posix_host_def n)
  have "launchTerminal (bare_host ''linux'')
        \<lparr> workingDirectory = ''/tmp/../etc'', command = ''claude-code'',
          ctxTerminalCommand = linux_default \<rparr>
      = Inr \<lparr> success = True, error = None \<rparr>"
    using v by (simp add: launchTerminal_valid spawnTerminal_cases bare_host_def posix_host_def
        spawn_ok_def)
  with n v show ?thesis by simp
qed

text \<open>
  C4. For the call that \<^verbatim>\<open>spawnTerminal\<close> makes: when the child emits an error whose code is
  \<^verbatim>\<open>ENOENT\<close> the result is the command-not-found error; when the code is \<^verbatim>\<open>EACCES\<close> it is the
  permission-denied error; for every other emitted error, and for an exception thrown by
  the call, it is the spawn-failed prefix followed by the error's own message. In each
  case the promise resolves with \<open>success = False\<close>.
\<close>

theorem spawn_errors_classified:
  "call = \<lparr> spawn_file = executable, spawn_args = args, spawn_shell = useShell \<rparr> \<Longrightarrow>
   (spawn host call = ErrorEvent err \<and> code err = Some ''ENOENT'' \<longrightarrow>
      spawnTerminal host executable args useShell
        = Inr \<lparr> success = False, error = Some COMMAND_NOT_FOUND \<rparr>)
   \<and> (spawn host call = ErrorEvent err \<and> code err = Some ''EACCES'' \<longrightarrow>
      spawnTerminal host executable args useShell
        = Inr \<lparr> success = False, error = Some PERMISSION_DENIED \<rparr>)
   \<and> (spawn host call = ErrorEvent err \<and> code err \<noteq> Some ''ENOENT'' \<and> code err \<noteq> Some ''EACCES'' \<longrightarrow>
      spawnTerminal host executable args useShell
        = Inr \<lparr> success = False, error = Some (SPAWN_FAILED @ message err) \<rparr>)
   \<and> (spawn host call = SpawnThrows m \<longrightarrow>
      spawnTerminal host executable args useShell
        = Inr \<lparr> success = False, error = Some (SPAWN_FAILED @ m) \<rparr>)"
  by (simp add: spawnTerminal_cases)

theorem spawn_errors_classified_witness:
  "spawnTerminal (failing_host enoent) ''/bin/sh'' [''-c'', ''xterm''] False
     = Inr \<lparr> success = False, error = Some COMMAND_NOT_FOUND \<rparr>
   \<and> spawnTerminal (failing_host eacces) ''/bin/sh'' [''-c'', ''xterm''] False
     = Inr \<lparr> success = False, error = Some PERMISSION_DENIED \<rparr>
   \<and> spawnTerminal (failing_host eagain) ''/bin/sh'' [''-c'', ''xterm''] False
     = Inr \<lparr> success = False, error = Some ''Failed to launch terminal: spawn /bin/sh EAGAIN'' \<rparr>
   \<and> spawnTerminal (throwing_host ''The argument 'file' is invalid'') ''/bin/sh'' [''-c'', ''xterm''] False
     = Inr \<lparr> success = False, error = Some ''Failed to launch terminal: The argument 'file' is invalid'' \<rparr>"
proof -
  have a: "spawn (failing_host e) sh_call = ErrorEvent e" for e
    by (simp add: failing_host_def posix_host_def spawn_emits_def)
  have b: "spawn (throwing_host m) sh_call = SpawnThrows m" for m
    by (simp add: throwing_host_def posix_host_def spawn_throws_def)
  have c: "code enoent = Some ''ENOENT''" "code eacces = Some ''EACCES''"
    "code eagain \<noteq> Some ''ENOENT''" "code eagain \<noteq> Some ''EACCES''"
    "message eagain = ''spawn /bin/sh EAGAIN''"
    by (simp_all add: enoent_def eacces_def eagain_def)
  note t = spawn_errors_classified [OF sh_call_def]
  from t [of "failing_host enoent" enoent] t [of "failing_host eacces" eacces]
    t [of "failing_host eagain" eagain]
    t [of "throwing_host ''The argument 'file' is invalid''" _ "''The argument 'file' is invalid''"]
  show ?thesis
    by (simp add: a b c SPAWN_FAILED_def)
qed

text \<open>
  C2, as stated, fails: on a host where no path is an existing directory, launching in
  \<^verbatim>\<open>/nonexistent\<close> does not fail with the invalid-path error; the command is substituted,
  spawned, and the result is a success.
\<close>

theorem missing_directory_is_launched:
  "\<not> isDirectory (bare_host ''linux'') ''/nonexistent''
   \<and> launchTerminal (bare_host ''linux'')
        \<lparr> workingDirectory = ''/nonexistent'', command = ''claude-code'',
          ctxTerminalCommand = linux_default \<rparr>
      = Inr \<lparr> success = True, error = None \<rparr>"
proof -
  have v: "validatePath (bare_host ''linux'') ''/nonexistent''"
    by (simp add: validatePath_def bare_host_def posix_host_def posix_normalize_def)
  have "launchTerminal (bare_host ''linux'')
        \<lparr> workingDirectory = ''/nonexistent'', command = ''claude-code'',
          ctxTerminalCommand = linux_default \<rparr>
      = Inr \<lparr> success = True, error = None \<rparr>"
    using v by (simp add: launchTerminal_valid spawnTerminal_cases bare_host_def posix_host_def
        spawn_ok_def)
  then show ?thesis
    by (simp add: bare_host_def posix_host_def no_directories_def)
qed

text \<open>
  C2, amended. \<^verbatim>\<open>launchTerminal\<close> makes no existence check. For every launch context whose
  working directory is not an existing directory but passes \<^verbatim>\<open>validatePath\<close>, the template
  is substituted and the resolved command is spawned like any other: the result of the
  launch is the result of that spawn, it is never the invalid-path error, and it is a
  success when the spawn reports no error.
\<close>

theorem missing_directory_not_checked:
  "\<not> isDirectory host (workingDirectory ctx) \<Longrightarrow>
   validatePath host (workingDirectory ctx) \<Longrightarrow>
   call = resolveCommand (platform host) (substitute ctx) \<Longrightarrow>
     launchTerminal host ctx =
       spawnTerminal host (spawn_file call) (spawn_args call) (spawn_shell call)
     \<and> launchTerminal host ctx \<noteq> Inr \<lparr> success = False, error = Some INVALID_PATH \<rparr>
     \<and> (spawn host call = NoErrorReported \<longrightarrow>
          launchTerminal host ctx = Inr \<lparr> success = True, error = None \<rparr>)"
proof -
  assume v: "validatePath host (workingDirectory ctx)"
    and c: "call = resolveCommand (platform host) (substitute ctx)"
  have l: "launchTerminal host ctx =
      spawnTerminal host (spawn_file call) (spawn_args call) (spawn_shell call)"
    unfolding c using v by (rule launchTerminal_valid)
  have n: "launchTerminal host ctx \<noteq> Inr \<lparr> success = False, error = Some INVALID_PATH \<rparr>"
    unfolding l by (rule spawnTerminal_not_invalid_path)
  have s: "launchTerminal host ctx = Inr \<lparr> success = True, error = None \<rparr>"
    if "spawn host call = NoErrorReported"
    using that unfolding l by (cases call) (simp add: spawnTerminal_cases)
  from l n s show ?thesis by blast
qed

theorem missing_directory_not_checked_witness:
  "\<not> isDirectory (failing_host enoent) ''/nonexistent''
   \<and> launchTerminal (failing_host enoent)
        \<lparr> workingDirectory = ''/nonexistent'', command = ''claude-code'',
          ctxTerminalCommand = linux_default \<rparr>
      = Inr \<lparr> success = False, error = Some COMMAND_NOT_FOUND \<rparr>"
proof -
  let ?ctx = "\<lparr> workingDirectory = ''/nonexistent'', command = ''claude-code'',
                 ctxTerminalCommand = linux_default \<rparr>"
  have d: "\<not> isDirectory (failing_host enoent) (workingDirectory ?ctx)"
    by (simp add: failing_host_def posix_host_def no_directories_def)
  have v: "validatePath (failing_host enoent) (workingDirectory ?ctx)"
    by (simp add: validatePath_def failing_host_def posix_host_def posix_normalize_def)
  have e: "spawnTerminal (failing_host enoent) f a u
             = Inr \<lparr> success = False, error = Some COMMAND_NOT_FOUND \<rparr>" for f a u
    by (simp add: spawnTerminal_cases failing_host_def posix_host_def spawn_emits_def enoent_def)
  from missing_directory_not_checked [OF d v refl] d show ?thesis
    by (simp add: e)
qed

text \<open>
  C5, as stated, fails: \<^verbatim>\<open>buildLaunchContext\<close> throws when the vault adapter is not a
  file-system adapter, and when the file has no parent folder.
\<close>

theorem buildLaunchContext_throws:
  "buildLaunchContext (bare_host ''linux'') \<lparr> vault_adapter = OtherAdapter \<rparr>
      \<lparr> parent = Some ''notes'' \<rparr> (getDefaultSettings ''linux'') = Inl NOT_DESKTOP
   \<and> buildLaunchContext (bare_host ''linux'') \<lparr> vault_adapter = FileSystemAdapter ''/vault'' \<rparr>
      \<lparr> parent = None \<rparr> (getDefaultSettings ''linux'') = Inl INVALID_PATH"
  by (simp add: buildLaunchContext_def)

text \<open>
  C5, amended. \<^verbatim>\<open>spawnTerminal\<close> and \<^verbatim>\<open>launchTerminal\<close> never throw, for any host and any
  input: they return a result, and the result carries an error message exactly when
  \<open>success\<close> is false. \<^verbatim>\<open>buildLaunchContext\<close> throws exactly when the adapter is not a
  file-system adapter (the not-desktop message) or the file has no parent (the
  invalid-path message).
\<close>

theorem launch_never_throws:
  "(\<exists>r. spawnTerminal host executable args useShell = Inr r \<and> (success r \<longleftrightarrow> error r = None))
   \<and> (\<exists>r. launchTerminal host ctx = Inr r \<and> (success r \<longleftrightarrow> error r = None))
   \<and> (isl (buildLaunchContext host app tfile settings)
        \<longleftrightarrow> vault_adapter app = OtherAdapter \<or> parent tfile = None)
   \<and> (vault_adapter app = OtherAdapter \<longrightarrow>
        buildLaunchContext host app tfile settings = Inl NOT_DESKTOP)
   \<and> (vault_adapter app \<noteq> OtherAdapter \<and> parent tfile = None \<longrightarrow>
        buildLaunchContext host app tfile settings = Inl INVALID_PATH)"
proof -
  have s: "\<exists>r. spawnTerminal h e a u = Inr r \<and> (success r \<longleftrightarrow> error r = None)" for h e a u
    by (simp add: spawnTerminal_cases split: SpawnOutcome.split)
  have l: "\<exists>r. launchTerminal host ctx = Inr r \<and> (success r \<longleftrightarrow> error r = None)"
  proof (cases "validatePath host (workingDirectory ctx)")
    case True
    then show ?thesis by (simp only: launchTerminal_valid s)
  next
    case False
    then show ?thesis by (simp add: launchTerminal_invalid)
  qed
  have b: "isl (buildLaunchContext host app tfile settings)
        \<longleftrightarrow> vault_adapter app = OtherAdapter \<or> parent tfile = None"
    by (simp add: buildLaunchContext_def split: DataAdapter.split option.split)
  have c: "vault_adapter app = OtherAdapter \<longrightarrow>
        buildLaunchContext host app tfile settings = Inl NOT_DESKTOP"
    by (simp add: buildLaunchContext_def)
  have d: "vault_adapter app \<noteq> OtherAdapter \<and> parent tfile = None \<longrightarrow>
        buildLaunchContext host app tfile settings = Inl INVALID_PATH"
    by (simp add: buildLaunchContext_def split: DataAdapter.split)
  from s l b c d show ?thesis by blast
qed

theorem launch_never_throws_witness:
  "(\<exists>r. launchTerminal (throwing_host ''boom'')
          \<lparr> workingDirectory = ''/tmp'', command = ''run'', ctxTerminalCommand = ''{CMD}'' \<rparr> = Inr r
        \<and> (success r \<longleftrightarrow> error r = None))
   \<and> buildLaunchContext (bare_host ''linux'') \<lparr> vault_adapter = OtherAdapter \<rparr>
        \<lparr> parent = Some ''notes'' \<rparr> (getDefaultSettings ''linux'') = Inl NOT_DESKTOP"
  using launch_never_throws [where host = "throwing_host ''boom''" and ctx =
      "\<lparr> workingDirectory = ''/tmp'', command = ''run'', ctxTerminalCommand = ''{CMD}'' \<rparr>"]
    launch_never_throws [where host = "bare_host ''linux''" and app = "\<lparr> vault_adapter = OtherAdapter \<rparr>"
      and tfile = "\<lparr> parent = Some ''notes'' \<rparr>" and settings = "getDefaultSettings ''linux''"]
  by simp

text \<open>
  C6, as stated, fails: for the empty template the specification's \<^verbatim>\<open>validate\<close> demands
  \<open>EmptyTemplate\<close>, but the handler shows no notice at all and stores the empty template.
\<close>

theorem empty_template_not_reported:
  "validate_spec '''' = Inl EmptyTemplate
   \<and> terminalCommand_onChange '''' (getDefaultSettings ''linux'')
       = (None, \<lparr> terminalCommand = '''', claudeCommand = ''claude-code'', additionalArgs = '''' \<rparr>)"
  by (simp add: validate_spec_def terminalCommand_onChange_def getDefaultSettings_def)

text \<open>
  C6, amended. The handler agrees with the specification's \<^verbatim>\<open>validate\<close> wherever that
  succeeds (no notice) or fails with \<open>MissingPlaceholder\<close> (the placeholder notice). It has
  no empty-template outcome: a whitespace-only template that is not empty gets the
  placeholder notice, the empty template gets no notice. In every case the value is
  stored in the settings; the handler never rejects.
\<close>

theorem onChange_notice:
  "(validate_spec val = Inr () \<longrightarrow> fst (terminalCommand_onChange val settings) = None)
   \<and> (validate_spec val = Inl MissingPlaceholder \<longrightarrow>
        fst (terminalCommand_onChange val settings) = Some PLACEHOLDER_NOTICE)
   \<and> (validate_spec val = Inl EmptyTemplate \<and> val \<noteq> [] \<longrightarrow>
        fst (terminalCommand_onChange val settings) = Some PLACEHOLDER_NOTICE)
   \<and> (val = [] \<longrightarrow> fst (terminalCommand_onChange val settings) = None)
   \<and> snd (terminalCommand_onChange val settings) = settings\<lparr>terminalCommand := val\<rparr>"
  using whitespace_lacks_placeholder [of val]
  by (auto simp: validate_spec_def terminalCommand_onChange_def split: if_splits)

theorem onChange_notice_witness:
  "fst (terminalCommand_onChange linux_default (getDefaultSettings ''darwin'')) = None
   \<and> fst (terminalCommand_onChange ''no placeholders here'' (getDefaultSettings ''linux''))
        = Some PLACEHOLDER_NOTICE
   \<and> fst (terminalCommand_onChange ''   '' (getDefaultSettings ''linux'')) = Some PLACEHOLDER_NOTICE
   \<and> fst (terminalCommand_onChange '''' (getDefaultSettings ''linux'')) = None"
proof -
  have a: "validate_spec linux_default = Inr ()"
    by (simp add: validate_spec_def linux_default_def isWhiteSpace_def)
  have b: "validate_spec ''no placeholders here'' = Inl MissingPlaceholder"
    by (simp add: validate_spec_def isWhiteSpace_def)
  have c: "validate_spec ''   '' = Inl EmptyTemplate \<and> ''   '' \<noteq> []"
    by (simp add: validate_spec_def isWhiteSpace_def)
  from onChange_notice [of linux_default "getDefaultSettings ''darwin''"]
    onChange_notice [of "''no placeholders here''" "getDefaultSettings ''linux''"]
    onChange_notice [of "''   ''" "getDefaultSettings ''linux''"]
    onChange_notice [of "''''" "getDefaultSettings ''linux''"] a b c
  show ?thesis by simp
qed

text \<open>
  C3, as stated, fails: placeholder text inside the working directory is substituted by the
  second pass (the template \<^verbatim>\<open>cd {DIR}\<close> with the directory \<^verbatim>\<open>/tmp/{CMD}\<close> and the command
  \<^verbatim>\<open>ls\<close> gives \<^verbatim>\<open>cd /tmp/ls\<close>); and a replacement pattern inside the command is expanded
  (the command \<^verbatim>\<open>echo $&\<close> in the slot of the template \<^verbatim>\<open>{CMD}\<close> becomes \<^verbatim>\<open>echo {CMD}\<close>).
\<close>

theorem directory_text_resubstituted:
  "substitute \<lparr> workingDirectory = ''/tmp/{CMD}'', command = ''ls'', ctxTerminalCommand = ''cd {DIR}'' \<rparr>
     = ''cd /tmp/ls''
   \<and> substitute \<lparr> workingDirectory = ''/tmp'', command = ''echo $&'', ctxTerminalCommand = ''{CMD}'' \<rparr>
     = ''echo {CMD}''"
  by (simp add: substitute_def replaceAll_def)

text \<open>
  C3, amended. For every template, and every working directory and command without a
  dollar sign, each \<^verbatim>\<open>{CMD}\<close> slot of the template receives the command text verbatim,
  whatever placeholder-like text the command contains, and the parts before and after
  the slot are substituted on their own. The witness is the template \<^verbatim>\<open>{CMD}\<close> with the
  command \<^verbatim>\<open>echo {DIR}\<close> and the directory \<^verbatim>\<open>/tmp\<close>, which yields \<^verbatim>\<open>echo {DIR}\<close>.
\<close>

theorem command_slot_verbatim:
  assumes "CHR ''$'' \<notin> set wd" and "CHR ''$'' \<notin> set cmd"
  shows "substitute \<lparr> workingDirectory = wd, command = cmd, ctxTerminalCommand = a @ ''{CMD}'' @ b \<rparr>
       = substitute \<lparr> workingDirectory = wd, command = cmd, ctxTerminalCommand = a \<rparr>
         @ cmd
         @ substitute \<lparr> workingDirectory = wd, command = cmd, ctxTerminalCommand = b \<rparr>"
  by (simp only: substitute_def LaunchContext.simps replaceAll_DIR_split [OF assms(1)]
      replaceAll_CMD_split [OF assms(2)])

theorem command_slot_verbatim_witness:
  "substitute \<lparr> workingDirectory = ''/tmp'', command = ''echo {DIR}'', ctxTerminalCommand = ''{CMD}'' \<rparr>
     = ''echo {DIR}''"
proof -
  have e: "substitute \<lparr> workingDirectory = ''/tmp'', command = ''echo {DIR}'',
                         ctxTerminalCommand = [] \<rparr> = []"
    by (simp add: substitute_def replaceAll_def)
  have "CHR ''$'' \<notin> set ''/tmp''" "CHR ''$'' \<notin> set ''echo {DIR}''"
    by simp_all
  from command_slot_verbatim [OF this, of "[]" "[]"] e show ?thesis
    by simp
qed

text \<open>
  C7, as stated, fails: for a single-quoted script of two lines, and for the empty
  script, the regular expression does not match, and the argument passed to \<^verbatim>\<open>osascript\<close> is
  the script together with its two quotes, not the text between them.
\<close>

theorem quoted_script_not_extracted:
  "resolveCommand ''darwin'' (''osascript -e '' @ [CHR 0x27] @ two_line_script @ [CHR 0x27]) =
     \<lparr> spawn_file = ''osascript'',
       spawn_args = [''-e'', [CHR 0x27] @ two_line_script @ [CHR 0x27]], spawn_shell = False \<rparr>
   \<and> resolveCommand ''darwin'' (''osascript -e '' @ [CHR 0x27] @ [] @ [CHR 0x27]) =
     \<lparr> spawn_file = ''osascript'',
       spawn_args = [''-e'', [CHR 0x27] @ [] @ [CHR 0x27]], spawn_shell = False \<rparr>"
  by (simp add: resolveCommand_def two_line_script_def osascript_match_here_def greedy_group_def
      isWhiteSpace_def isLineTerminator_def)

text \<open>
  C7, amended. On macOS, a substituted command of the form \<^verbatim>\<open>osascript\<close>, white space,
  \<^verbatim>\<open>-e\<close>, white space, and a single-quoted payload that is not empty and has no line
  break (with no further quote on that line) is resolved to \<^verbatim>\<open>osascript\<close> with the two
  arguments \<^verbatim>\<open>-e\<close> and exactly that payload, and that is the process \<^verbatim>\<open>launchTerminal\<close>
  spawns. Every substituted command that contains \<^verbatim>\<open>osascript\<close> is resolved to \<^verbatim>\<open>osascript\<close>
  with two arguments, the second never split; where the regular expression matches
  nowhere, the second argument is the whole command without its first \<^verbatim>\<open>osascript -e \<close>.
\<close>

theorem osascript_payload:
  assumes "ws1 \<noteq> []" and "list_all isWhiteSpace ws1"
    and "ws2 \<noteq> []" and "list_all isWhiteSpace ws2"
    and "payload \<noteq> []" and "list_all (\<lambda>c. \<not> isLineTerminator c) payload"
    and "CHR 0x27 \<notin> set (takeWhile (\<lambda>c. \<not> isLineTerminator c) rest)"
    and "s = ''osascript'' @ ws1 @ ''-e'' @ ws2 @ [CHR 0x27] @ payload @ [CHR 0x27] @ rest"
  shows "resolveCommand ''darwin'' s =
           \<lparr> spawn_file = ''osascript'', spawn_args = [''-e'', payload], spawn_shell = False \<rparr>
     \<and> (platform host = ''darwin'' \<and> validatePath host (workingDirectory ctx)
          \<and> substitute ctx = s \<longrightarrow>
            launchTerminal host ctx = spawnTerminal host ''osascript'' [''-e'', payload] False)
     \<and> (str_includes t ''osascript'' \<longrightarrow>
          (\<exists>script. resolveCommand ''darwin'' t =
             \<lparr> spawn_file = ''osascript'', spawn_args = [''-e'', script], spawn_shell = False \<rparr>))
     \<and> (str_includes t ''osascript'' \<and> osascript_match t = None \<longrightarrow>
          resolveCommand ''darwin'' t =
            \<lparr> spawn_file = ''osascript'',
              spawn_args = [''-e'', remove_first ''osascript -e '' t], spawn_shell = False \<rparr>)"
proof -
  have "osascript_match_here s = Some payload"
    unfolding assms(8) using assms(1-7) by (rule osascript_match_here_form)
  then have m: "osascript_match s = Some payload"
    by (rule osascript_match_here_imp_match)
  have "sublist ''osascript'' s"
    unfolding assms(8) by (rule sublist_append_rightI)
  then have i: "str_includes s ''osascript''"
    by (simp only: str_includes_sublist)
  from resolveCommand_darwin_osascript [OF i] m
  have r: "resolveCommand ''darwin'' s =
      \<lparr> spawn_file = ''osascript'', spawn_args = [''-e'', payload], spawn_shell = False \<rparr>"
    by simp
  have l: "launchTerminal host ctx = spawnTerminal host ''osascript'' [''-e'', payload] False"
    if "platform host = ''darwin''" "validatePath host (workingDirectory ctx)" "substitute ctx = s"
    using that r by (simp add: launchTerminal_valid)
  have g: "\<exists>script. resolveCommand ''darwin'' t =
             \<lparr> spawn_file = ''osascript'', spawn_args = [''-e'', script], spawn_shell = False \<rparr>"
    if "str_includes t ''osascript''"
    using resolveCommand_darwin_osascript [OF that] by blast
  have f: "resolveCommand ''darwin'' t =
            \<lparr> spawn_file = ''osascript'',
              spawn_args = [''-e'', remove_first ''osascript -e '' t], spawn_shell = False \<rparr>"
    if "str_includes t ''osascript''" "osascript_match t = None"
    using resolveCommand_darwin_osascript [OF that(1)] that(2) by simp
  from r l g f show ?thesis by blast
qed

theorem osascript_payload_witness:
  "substitute darwin_ctx = ''osascript -e '' @ [CHR 0x27] @ terminal_script @ [CHR 0x27]
   \<and> resolveCommand ''darwin'' (substitute darwin_ctx) =
       \<lparr> spawn_file = ''osascript'', spawn_args = [''-e'', terminal_script], spawn_shell = False \<rparr>
   \<and> launchTerminal (bare_host ''darwin'') darwin_ctx =
       spawnTerminal (bare_host ''darwin'') ''osascript'' [''-e'', terminal_script] False"
proof -
  have s: "substitute darwin_ctx =
      ''osascript'' @ '' '' @ ''-e'' @ '' '' @ [CHR 0x27] @ terminal_script @ [CHR 0x27] @ []"
    by (simp add: substitute_def replaceAll_def darwin_ctx_def darwin_default_def
        terminal_script_def)
  have w: "'' '' \<noteq> []" "list_all isWhiteSpace '' ''"
    by (simp_all add: isWhiteSpace_def)
  have p: "terminal_script \<noteq> []" "list_all (\<lambda>c. \<not> isLineTerminator c) terminal_script"
    by (simp_all add: terminal_script_def isLineTerminator_def)
  have r: "CHR 0x27 \<notin> set (takeWhile (\<lambda>c. \<not> isLineTerminator c) [])"
    by simp
  have h: "platform (bare_host ''darwin'') = ''darwin''"
    by (simp add: bare_host_def posix_host_def)
  have v: "validatePath (bare_host ''darwin'') (workingDirectory darwin_ctx)"
    by (simp add: validatePath_def bare_host_def posix_host_def posix_normalize_def darwin_ctx_def)
  from osascript_payload [OF w w p r s, where host = "bare_host ''darwin''" and ctx = darwin_ctx]
    h v s
  show ?thesis by simp
qed

end
